theory Spec2Isabelle
  imports Main
begin

section \<open>Data model of \<open>service_config_manager.py\<close>\<close>

text \<open>
  The module keeps every configuration in Python dictionaries keyed by strings. A
  dictionary is a partial map; \<open>dict.update\<close> is map override (\<open>++\<close>, the right
  operand wins key by key), \<open>d.get(k, default)\<close> is \<open>dict_get\<close> and \<open>k in d\<close> is
  \<open>dict_contains\<close>. The setting values (\<open>Any\<close> in the source) stay a type parameter:
  the code never inspects them.
\<close>

type_synonym 'v settings = "string \<rightharpoonup> 'v"
  \<comment> \<open>a flat mapping setting-name to value: the defaults, one tier, a resolved config\<close>

type_synonym 'v service_config = "string \<rightharpoonup> 'v settings"
  \<comment> \<open>one service's section: the key \<open>*\<close> or a dataset id to its settings\<close>

type_synonym 'v full_config = "string \<rightharpoonup> 'v service_config"
  \<comment> \<open>the value stored under \<open>service_configs\<close>: service name to section\<close>

type_synonym 'v metadata = "string \<rightharpoonup> 'v full_config"
  \<comment> \<open>the binaries dataset's metadata, as far as the module reads it\<close>

type_synonym dataset_id = "string option"
  \<comment> \<open>\<open>Optional[str]\<close>: \<open>None\<close> is Python's \<open>None\<close>\<close>

definition GLOBAL_KEY :: string where
  "GLOBAL_KEY = ''*''"

definition dict_get :: "('k \<rightharpoonup> 'a) \<Rightarrow> 'k \<Rightarrow> 'a \<Rightarrow> 'a" where
  "dict_get d k dflt = (case d k of None \<Rightarrow> dflt | Some v \<Rightarrow> v)"

definition dict_contains :: "('k \<rightharpoonup> 'a) \<Rightarrow> 'k \<Rightarrow> bool" where
  "dict_contains d k = (d k \<noteq> None)"

text \<open>
  A dictionary with string keys read at an \<open>Optional[str]\<close>: \<open>None\<close> is not among
  its keys.
\<close>

definition at_id :: "(string \<rightharpoonup> 'a) \<Rightarrow> (dataset_id \<rightharpoonup> 'a)" where
  "at_id d k = (case k of None \<Rightarrow> None | Some s \<Rightarrow> d s)"

text \<open>
  Python's truth value of an \<open>Optional[str]\<close>, as \<open>if dataset_id\<close> reads it: \<open>None\<close>
  and the empty string are false, every other string is true.
\<close>

fun truthy :: "dataset_id \<Rightarrow> bool" where
  "truthy None = False"
| "truthy (Some s) = (s \<noteq> [])"

subsection \<open>The platform (\<open>dtlpy\<close>)\<close>

text \<open>
  The platform SDK is outside the module; it is a parameter of the model. Each of its
  three calls either raises or returns. Datasets and projects are named by handles.
\<close>

datatype error = NotFoundError | PlatformError string

record 'v platform =
  datasets_get :: "dataset_id \<Rightarrow> error + string"
    \<comment> \<open>\<open>dl.datasets.get(dataset_id=...)\<close>\<close>
  dataset_project :: "string \<Rightarrow> error + string"
    \<comment> \<open>\<open>dataset.project\<close>\<close>
  get_binaries_dataset :: "string \<Rightarrow> error + 'v metadata"
    \<comment> \<open>\<open>project.datasets._get_binaries_dataset()\<close>, read through \<open>.metadata\<close>\<close>

text \<open>Lines 70 to 72 of \<open>_load_dataset_config\<close>: the first call that raises ends the fetch.\<close>

definition binaries_metadata :: "'v platform \<Rightarrow> dataset_id \<Rightarrow> error + 'v metadata" where
  "binaries_metadata dl dataset_id =
     (case datasets_get dl dataset_id of
        Inl e \<Rightarrow> Inl e
      | Inr dataset \<Rightarrow>
          (case dataset_project dl dataset of
             Inl e \<Rightarrow> Inl e
           | Inr project \<Rightarrow> get_binaries_dataset dl project))"

subsection \<open>The manager\<close>

text \<open>
  \<open>ServiceConfigManager\<close> has three fields. \<open>store_calls\<close> is not a field of the class:
  it records, in order, the argument of every \<open>dl.datasets.get\<close> call the manager has
  made, so that "no fetch" and "no retry" can be stated.
\<close>

record 'v manager =
  service_name :: string
  defaults :: "'v settings"
  config_cache :: "dataset_id \<rightharpoonup> 'v settings"
  store_calls :: "dataset_id list"

text \<open>\<open>__init__\<close>: \<open>defaults or {}\<close> turns \<open>None\<close> (and the empty dict) into the empty dict.\<close>

definition init :: "string \<Rightarrow> 'v settings option \<Rightarrow> 'v manager" where
  "init name dflts =
     \<lparr> service_name = name,
       defaults = (case dflts of None \<Rightarrow> Map.empty | Some d \<Rightarrow> d),
       config_cache = Map.empty,
       store_calls = [] \<rparr>"

text \<open>\<open>_resolve_config\<close>, lines 84 to 110.\<close>

definition resolve_config ::
  "'v manager \<Rightarrow> 'v service_config \<Rightarrow> dataset_id \<Rightarrow> 'v settings" where
  "resolve_config self service_config dataset_id =
     (let resolved = defaults self;
          global_config = dict_get service_config GLOBAL_KEY Map.empty;
          resolved = resolved ++ global_config
      in if truthy dataset_id \<and> dict_contains (at_id service_config) dataset_id
         then resolved ++ dict_get (at_id service_config) dataset_id Map.empty
         else resolved)"

text \<open>
  \<open>_load_dataset_config\<close>, lines 52 to 82. The result is what the call returns
  (\<open>Inr\<close>) or raises (\<open>Inl\<close>), paired with the manager after the call. A raise leaves
  the cache as it was: the assignment of line 81 is never reached.
\<close>

definition load_dataset_config ::
  "'v platform \<Rightarrow> 'v manager \<Rightarrow> dataset_id \<Rightarrow> (error + 'v settings) \<times> 'v manager" where
  "load_dataset_config dl self dataset_id =
     (case config_cache self dataset_id of
        Some cached \<Rightarrow> (Inr cached, self)
      | None \<Rightarrow>
          (let self1 = self\<lparr>store_calls := store_calls self @ [dataset_id]\<rparr> in
           case binaries_metadata dl dataset_id of
             Inl e \<Rightarrow> (Inl e, self1)
           | Inr metadata \<Rightarrow>
               (let full_config = dict_get metadata ''service_configs'' Map.empty;
                    service_config = dict_get full_config (service_name self1) Map.empty;
                    dataset_config = resolve_config self1 service_config dataset_id
                in (Inr dataset_config,
                    self1\<lparr>config_cache := (config_cache self1)(dataset_id \<mapsto> dataset_config)\<rparr>))))"

definition get_config ::
  "'v platform \<Rightarrow> 'v manager \<Rightarrow> dataset_id \<Rightarrow> (error + 'v settings) \<times> 'v manager" where
  "get_config dl self dataset_id = load_dataset_config dl self dataset_id"

text \<open>\<open>clear_cache\<close>, lines 112 to 126.\<close>

definition clear_cache :: "'v manager \<Rightarrow> dataset_id \<Rightarrow> 'v manager" where
  "clear_cache self dataset_id =
     (if truthy dataset_id then
        (if dict_contains (config_cache self) dataset_id
         then self\<lparr>config_cache := (config_cache self)(dataset_id := None)\<rparr>
         else self)
      else self\<lparr>config_cache := Map.empty\<rparr>)"

text \<open>\<open>reload_config\<close>, lines 128 to 139; its parameter is typed \<open>str\<close>.\<close>

definition reload_config ::
  "'v platform \<Rightarrow> 'v manager \<Rightarrow> string \<Rightarrow> (error + 'v settings) \<times> 'v manager" where
  "reload_config dl self dataset_id =
     load_dataset_config dl (clear_cache self (Some dataset_id)) (Some dataset_id)"

subsection \<open>The section a fetch yields\<close>

text \<open>
  Lines 74 and 76 as a function of the fetched metadata and the service name: what
  \<open>_load_dataset_config\<close> hands to \<open>_resolve_config\<close>.
\<close>

definition section_of :: "'v metadata \<Rightarrow> string \<Rightarrow> 'v service_config" where
  "section_of metadata name =
     dict_get (dict_get metadata ''service_configs'' Map.empty) name Map.empty"

subsection \<open>Values and platforms for the concrete scenarios\<close>

datatype val = IntV int | StrV string

text \<open>
  A platform on which every dataset with a non-empty id belongs to one project with the
  given metadata. As the SDK does, it resolves neither a missing id nor the empty id.
\<close>

definition const_platform :: "'v metadata \<Rightarrow> 'v platform" where
  "const_platform md =
     \<lparr> datasets_get =
         (\<lambda>d. case d of
                None \<Rightarrow> Inl (PlatformError ''BadRequest'')
              | Some s \<Rightarrow> if s = [] then Inl NotFoundError else Inr s),
       dataset_project = (\<lambda>_. Inr ''project''),
       get_binaries_dataset = (\<lambda>_. Inr md) \<rparr>"

text \<open>A platform that knows no dataset.\<close>

definition empty_platform :: "'v platform" where
  "empty_platform =
     \<lparr> datasets_get = (\<lambda>_. Inl NotFoundError),
       dataset_project = (\<lambda>_. Inl NotFoundError),
       get_binaries_dataset = (\<lambda>_. Inl NotFoundError) \<rparr>"

text \<open>The metadata holding one section for one service.\<close>

definition metadata_with :: "string \<Rightarrow> 'v service_config \<Rightarrow> 'v metadata" where
  "metadata_with name sc = [''service_configs'' \<mapsto> [name \<mapsto> sc]]"

subsection \<open>The scenario of the specification\<close>

definition scenario_defaults :: "val settings" where
  "scenario_defaults = [''quality'' \<mapsto> IntV 5]"

definition scenario_section :: "val service_config" where
  "scenario_section =
     [''*'' \<mapsto> [''quality'' \<mapsto> IntV 10, ''format'' \<mapsto> StrV ''mp4''],
      ''ds1'' \<mapsto> [''quality'' \<mapsto> IntV 20]]"

text \<open>A section with an entry for \<open>ds1\<close> and no global tier.\<close>

definition entity_only_section :: "val service_config" where
  "entity_only_section = [''ds1'' \<mapsto> [''format'' \<mapsto> StrV ''webm'']]"

text \<open>A manager that has cached a config for each of \<open>ds1\<close> and \<open>ds2\<close>.\<close>

definition cached_manager :: "val manager" where
  "cached_manager =
     \<lparr> service_name = ''webm-converter'',
       defaults = scenario_defaults,
       config_cache = [Some ''ds1'' \<mapsto> [''quality'' \<mapsto> IntV 1],
                       Some ''ds2'' \<mapsto> [''quality'' \<mapsto> IntV 2]],
       store_calls = [Some ''ds1'', Some ''ds2''] \<rparr>"

subsection \<open>The tier rule in the words of the specification\<close>

text \<open>
  The value of one setting as the specification's tie-break rule words it: the
  entity-specific value when the entity id is a key of the section and its tier carries
  the setting, otherwise the global tier's value when it has one, otherwise the
  defaults' value (none when no tier has the setting). This definition follows the
  specification, not the code; the theorems on the tiers compare the two.
\<close>

definition spec_tier :: "'v service_config \<Rightarrow> string \<Rightarrow> string \<Rightarrow> 'v option" where
  "spec_tier sc key setting = (case sc key of None \<Rightarrow> None | Some tier \<Rightarrow> tier setting)"

definition spec_resolved :: "'v settings \<Rightarrow> 'v service_config \<Rightarrow> string \<Rightarrow> 'v settings" where
  "spec_resolved dflts sc entity_id =
     (\<lambda>setting.
        case spec_tier sc entity_id setting of
          Some v \<Rightarrow> Some v
        | None \<Rightarrow>
            (case spec_tier sc GLOBAL_KEY setting of
               Some v \<Rightarrow> Some v
             | None \<Rightarrow> dflts setting))"

section \<open>Shared lemmas\<close>

lemma at_id_simps [simp]:
  "at_id d None = None"
  "at_id d (Some s) = d s"
  "at_id Map.empty = Map.empty"
  by (auto simp: at_id_def split: option.split)

lemma binaries_metadata_const [simp]:
  "binaries_metadata (const_platform md) (Some s) =
     (if s = [] then Inl NotFoundError else Inr md)"
  by (simp add: binaries_metadata_def const_platform_def)

lemma datasets_get_const_empty [simp]:
  "datasets_get (const_platform md) (Some []) = Inl NotFoundError"
  by (simp add: const_platform_def)

lemma fetched_id_not_empty:
  assumes "datasets_get dl (Some []) = Inl e0" and "binaries_metadata dl (Some s) = Inr md"
  shows "s \<noteq> []"
  using assms by (auto simp: binaries_metadata_def)

lemma section_of_present:
  "md ''service_configs'' = Some full \<Longrightarrow> full name = Some sc \<Longrightarrow> section_of md name = sc"
  by (simp add: section_of_def dict_get_def)

lemma section_of_absent:
  "md ''service_configs'' = None \<Longrightarrow> section_of md name = Map.empty"
  "md ''service_configs'' = Some full \<Longrightarrow> full name = None \<Longrightarrow> section_of md name = Map.empty"
  by (simp_all add: section_of_def dict_get_def)

lemma binaries_metadata_empty [simp]:
  "binaries_metadata empty_platform d = Inl NotFoundError"
  by (simp add: binaries_metadata_def empty_platform_def)

lemma section_of_metadata_with [simp]:
  "section_of (metadata_with name sc) name = sc"
  by (simp add: section_of_def metadata_with_def dict_get_def)

lemma load_hit:
  "config_cache self d = Some c \<Longrightarrow> load_dataset_config dl self d = (Inr c, self)"
  by (simp add: load_dataset_config_def)

lemma load_miss_ok:
  assumes "config_cache self d = None" and "binaries_metadata dl d = Inr md"
  shows "load_dataset_config dl self d =
           (Inr (resolve_config self (section_of md (service_name self)) d),
            self\<lparr>store_calls := store_calls self @ [d],
                 config_cache := (config_cache self)
                   (d \<mapsto> resolve_config self (section_of md (service_name self)) d)\<rparr>)"
  using assms
  by (simp add: load_dataset_config_def section_of_def resolve_config_def Let_def)

lemma load_miss_error:
  assumes "config_cache self d = None" and "binaries_metadata dl d = Inl e"
  shows "load_dataset_config dl self d =
           (Inl e, self\<lparr>store_calls := store_calls self @ [d]\<rparr>)"
  using assms by (simp add: load_dataset_config_def)

lemma resolve_config_absent:
  "\<not> truthy d \<Longrightarrow>
   resolve_config self sc d = defaults self ++ dict_get sc GLOBAL_KEY Map.empty"
  by (simp add: resolve_config_def Let_def)

lemma resolve_config_present:
  "s \<noteq> [] \<Longrightarrow>
   resolve_config self sc (Some s) =
     defaults self ++ dict_get sc GLOBAL_KEY Map.empty ++ dict_get sc s Map.empty"
  by (simp add: resolve_config_def Let_def dict_contains_def dict_get_def)

lemma clear_cache_entry:
  "config_cache (clear_cache self (Some s)) (Some s) = None"
  by (simp add: clear_cache_def dict_contains_def)

lemma clear_cache_other:
  "s \<noteq> [] \<Longrightarrow> d \<noteq> Some s \<Longrightarrow>
   config_cache (clear_cache self (Some s)) d = config_cache self d"
  by (simp add: clear_cache_def)

lemma clear_cache_fields:
  "service_name (clear_cache self d) = service_name self"
  "defaults (clear_cache self d) = defaults self"
  "store_calls (clear_cache self d) = store_calls self"
  by (simp_all add: clear_cache_def)

lemma resolve_config_defaults_only:
  "defaults self' = defaults self \<Longrightarrow> resolve_config self' sc d = resolve_config self sc d"
  by (simp add: resolve_config_def)

lemma load_fields:
  "service_name (snd (load_dataset_config dl self d)) = service_name self"
  "defaults (snd (load_dataset_config dl self d)) = defaults self"
  by (simp_all add: load_dataset_config_def Let_def split: option.split sum.split)

lemma load_cache_other:
  "d' \<noteq> d \<Longrightarrow>
   config_cache (snd (load_dataset_config dl self d)) d' = config_cache self d'"
  by (simp add: load_dataset_config_def Let_def split: option.split sum.split)

lemma get_config_miss_ok:
  assumes "config_cache self d = None" and "binaries_metadata dl d = Inr md"
  shows "fst (get_config dl self d) =
           Inr (resolve_config self (section_of md (service_name self)) d)"
  using assms by (simp add: get_config_def load_miss_ok)

lemma spec_resolved_eq:
  "spec_resolved dflts sc s =
     dflts ++ dict_get sc GLOBAL_KEY Map.empty ++ dict_get sc s Map.empty"
  by (rule ext)
     (simp add: spec_resolved_def spec_tier_def map_add_def dict_get_def
           split: option.split)

section \<open>The three-tier merge\<close>

text \<open>
  Claim C1. For every defaults mapping, every service section and every provided entity
  id, the resolved config that \<open>get_config\<close> produces (on a cache miss, from a fetch
  that succeeds) sends each setting-name to the entity-specific value when the entity
  id is a key of the section and carries the setting, otherwise to the global tier's
  value when present, otherwise to the defaults' value; a setting absent from all
  three tiers is absent from the result. The platform is one that does not resolve the
  empty id, as \<open>dl.datasets.get\<close> does not: the store of the specification requires a
  resolvable entity id.
\<close>

theorem get_config_tiers:
  assumes "datasets_get dl (Some []) = Inl e0"
    and "config_cache self (Some s) = None"
    and "binaries_metadata dl (Some s) = Inr md"
    and "md ''service_configs'' = Some full"
    and "full (service_name self) = Some sc"
  shows "fst (get_config dl self (Some s)) = Inr (spec_resolved (defaults self) sc s)"
proof -
  have ne: "s \<noteq> []"
    using assms(1,3) by (rule fetched_id_not_empty)
  have sc: "section_of md (service_name self) = sc"
    using assms(4,5) by (rule section_of_present)
  have "fst (get_config dl self (Some s)) = Inr (resolve_config self sc (Some s))"
    using get_config_miss_ok [OF assms(2,3)] by (simp add: sc)
  also have "resolve_config self sc (Some s) = spec_resolved (defaults self) sc s"
    using ne by (simp add: resolve_config_present spec_resolved_eq)
  finally show ?thesis .
qed

theorem get_config_tiers_witness:
  "datasets_get (const_platform (metadata_with ''svc'' scenario_section)) (Some [])
       = Inl NotFoundError
   \<and> config_cache (init ''svc'' (Some scenario_defaults)) (Some ''ds1'') = None
   \<and> binaries_metadata (const_platform (metadata_with ''svc'' scenario_section)) (Some ''ds1'')
       = Inr (metadata_with ''svc'' scenario_section)
   \<and> metadata_with ''svc'' scenario_section ''service_configs''
       = Some [''svc'' \<mapsto> scenario_section]
   \<and> [''svc'' \<mapsto> scenario_section]
        (service_name (init ''svc'' (Some scenario_defaults))) = Some scenario_section
   \<and> fst (get_config (const_platform (metadata_with ''svc'' scenario_section))
             (init ''svc'' (Some scenario_defaults)) (Some ''ds1''))
       = Inr (spec_resolved scenario_defaults scenario_section ''ds1'')
   \<and> spec_resolved scenario_defaults scenario_section ''ds1'' ''quality'' = Some (IntV 20)
   \<and> spec_resolved scenario_defaults scenario_section ''ds1'' ''format'' = Some (StrV ''mp4'')
   \<and> spec_resolved scenario_defaults scenario_section ''ds1'' ''bitrate'' = None"
proof -
  have vals:
    "spec_resolved scenario_defaults scenario_section ''ds1'' ''quality'' = Some (IntV 20)"
    "spec_resolved scenario_defaults scenario_section ''ds1'' ''format'' = Some (StrV ''mp4'')"
    "spec_resolved scenario_defaults scenario_section ''ds1'' ''bitrate'' = None"
    by (simp_all add: spec_resolved_def spec_tier_def scenario_section_def
          scenario_defaults_def GLOBAL_KEY_def)
  show ?thesis
    using get_config_tiers [where dl = "const_platform (metadata_with ''svc'' scenario_section)"
        and ?e0.0 = NotFoundError and self = "init ''svc'' (Some scenario_defaults)"
        and s = "''ds1''" and md = "metadata_with ''svc'' scenario_section"
        and full = "[''svc'' \<mapsto> scenario_section]" and sc = scenario_section]
      vals
    by (simp add: init_def metadata_with_def)
qed

text \<open>
  Claim C2. With defaults \<open>{"quality": 5}\<close> and a store that returns the section
  \<open>{"*": {"quality": 10, "format": "mp4"}, "ds1": {"quality": 20}}\<close>, a new manager's
  \<open>get_config("ds1")\<close> returns \<open>{"quality": 20, "format": "mp4"}\<close> and its
  \<open>get_config("ds2")\<close> returns \<open>{"quality": 10, "format": "mp4"}\<close>, also when the
  second call follows the first on the same manager.
\<close>

theorem scenario_results:
  assumes "binaries_metadata dl (Some ''ds1'') = Inr md1"
    and "section_of md1 name = scenario_section"
    and "binaries_metadata dl (Some ''ds2'') = Inr md2"
    and "section_of md2 name = scenario_section"
  shows "fst (get_config dl (init name (Some scenario_defaults)) (Some ''ds1''))
           = Inr [''quality'' \<mapsto> IntV 20, ''format'' \<mapsto> StrV ''mp4'']
       \<and> fst (get_config dl (init name (Some scenario_defaults)) (Some ''ds2''))
           = Inr [''quality'' \<mapsto> IntV 10, ''format'' \<mapsto> StrV ''mp4'']
       \<and> fst (get_config dl
                (snd (get_config dl (init name (Some scenario_defaults)) (Some ''ds1'')))
                (Some ''ds2''))
           = Inr [''quality'' \<mapsto> IntV 10, ''format'' \<mapsto> StrV ''mp4'']"
proof -
  define m :: "val manager" where "m = init name (Some scenario_defaults)"
  define m1 where "m1 = snd (get_config dl m (Some ''ds1''))"
  have n: "service_name m = name" and c: "config_cache m = Map.empty"
    and d: "defaults m = scenario_defaults"
    by (simp_all add: m_def init_def)
  have n1: "service_name m1 = name" and d1: "defaults m1 = scenario_defaults"
    and c1: "config_cache m1 (Some ''ds2'') = None"
    by (simp_all add: m1_def get_config_def load_fields load_cache_other n d c)
  have r1: "resolve_config self scenario_section (Some ''ds1'')
              = [''quality'' \<mapsto> IntV 20, ''format'' \<mapsto> StrV ''mp4'']"
    if "defaults self = scenario_defaults" for self :: "val manager"
    by (simp add: resolve_config_present that)
       (rule ext, simp add: scenario_section_def scenario_defaults_def
          dict_get_def GLOBAL_KEY_def map_add_def)
  have r2: "resolve_config self scenario_section (Some ''ds2'')
              = [''quality'' \<mapsto> IntV 10, ''format'' \<mapsto> StrV ''mp4'']"
    if "defaults self = scenario_defaults" for self :: "val manager"
    by (simp add: resolve_config_present that)
       (rule ext, simp add: scenario_section_def scenario_defaults_def
          dict_get_def GLOBAL_KEY_def map_add_def)
  have "fst (get_config dl m (Some ''ds1''))
          = Inr [''quality'' \<mapsto> IntV 20, ''format'' \<mapsto> StrV ''mp4'']"
    using get_config_miss_ok [of m "Some ''ds1''" dl md1] assms(1,2)
    by (simp add: c n r1 [OF d])
  moreover have "fst (get_config dl m (Some ''ds2''))
          = Inr [''quality'' \<mapsto> IntV 10, ''format'' \<mapsto> StrV ''mp4'']"
    using get_config_miss_ok [of m "Some ''ds2''" dl md2] assms(3,4)
    by (simp add: c n r2 [OF d])
  moreover have "fst (get_config dl m1 (Some ''ds2''))
          = Inr [''quality'' \<mapsto> IntV 10, ''format'' \<mapsto> StrV ''mp4'']"
    using get_config_miss_ok [of m1 "Some ''ds2''" dl md2] assms(3,4)
    by (simp add: c1 n1 r2 [OF d1])
  ultimately show ?thesis
    unfolding m1_def m_def by simp
qed

theorem scenario_results_witness:
  "binaries_metadata (const_platform (metadata_with ''webm-converter'' scenario_section))
       (Some ''ds1'') = Inr (metadata_with ''webm-converter'' scenario_section)
   \<and> section_of (metadata_with ''webm-converter'' scenario_section) ''webm-converter''
       = scenario_section
   \<and> binaries_metadata (const_platform (metadata_with ''webm-converter'' scenario_section))
       (Some ''ds2'') = Inr (metadata_with ''webm-converter'' scenario_section)
   \<and> fst (get_config (const_platform (metadata_with ''webm-converter'' scenario_section))
            (init ''webm-converter'' (Some scenario_defaults)) (Some ''ds1''))
       = Inr [''quality'' \<mapsto> IntV 20, ''format'' \<mapsto> StrV ''mp4'']
   \<and> fst (get_config (const_platform (metadata_with ''webm-converter'' scenario_section))
            (init ''webm-converter'' (Some scenario_defaults)) (Some ''ds2''))
       = Inr [''quality'' \<mapsto> IntV 10, ''format'' \<mapsto> StrV ''mp4'']"
  using scenario_results [of "const_platform (metadata_with ''webm-converter'' scenario_section)"
      "metadata_with ''webm-converter'' scenario_section" "''webm-converter''"
      "metadata_with ''webm-converter'' scenario_section"]
  by simp

text \<open>
  Claim C3. For every defaults mapping and every entity id with no cached entry, when
  the fetched raw config has no section for the manager's service name, \<open>get_config\<close>
  returns a mapping equal to the defaults.
\<close>

theorem absent_section_returns_defaults:
  assumes "config_cache self d = None"
    and "binaries_metadata dl d = Inr md"
    and "dict_get md ''service_configs'' Map.empty (service_name self) = None"
  shows "fst (get_config dl self d) = Inr (defaults self)"
proof -
  have "section_of md (service_name self) = Map.empty"
    using assms(3) by (simp add: section_of_def dict_get_def)
  then show ?thesis
    using assms(1,2)
    by (simp add: get_config_def load_miss_ok resolve_config_def dict_get_def
          dict_contains_def)
qed

theorem absent_section_returns_defaults_witness:
  "config_cache (init ''svc'' (Some scenario_defaults)) (Some ''ds1'') = None
   \<and> binaries_metadata (const_platform (metadata_with ''other'' scenario_section))
       (Some ''ds1'') = Inr (metadata_with ''other'' scenario_section)
   \<and> dict_get (metadata_with ''other'' scenario_section) ''service_configs'' Map.empty
       (service_name (init ''svc'' (Some scenario_defaults))) = None
   \<and> fst (get_config (const_platform (metadata_with ''other'' scenario_section))
            (init ''svc'' (Some scenario_defaults)) (Some ''ds1''))
       = Inr scenario_defaults"
  using absent_section_returns_defaults [of "init ''svc'' (Some scenario_defaults)"
      "Some ''ds1''" "const_platform (metadata_with ''other'' scenario_section)"
      "metadata_with ''other'' scenario_section"]
  by (simp add: init_def metadata_with_def dict_get_def)

text \<open>
  Claim C6. When the fetched raw config lacks the service's section, or the section
  lacks the global \<open>*\<close> key, or it lacks an entry for the given entity id,
  \<open>get_config\<close> raises nothing and merges the tiers that remain. On a cache miss with a
  successful fetch: with no \<open>service_configs\<close> or no section for the service the
  result is the defaults; with a section that has no \<open>*\<close> key and has the tier \<open>t\<close>
  for the entity id the result is the defaults overlaid with \<open>t\<close>; with a section that
  has the global tier \<open>g\<close> and no entry for the entity id (or no entity id) the result
  is the defaults overlaid with \<open>g\<close>; with a section that has neither the result is
  the defaults.
\<close>

theorem missing_tiers_are_empty:
  assumes "config_cache self d = None"
    and "binaries_metadata dl d = Inr md"
  shows "(md ''service_configs'' = None \<longrightarrow>
            fst (get_config dl self d) = Inr (defaults self))
       \<and> (md ''service_configs'' = Some full \<and> full (service_name self) = None \<longrightarrow>
            fst (get_config dl self d) = Inr (defaults self))
       \<and> (md ''service_configs'' = Some full \<and> full (service_name self) = Some sc \<longrightarrow>
            (sc ''*'' = None \<and> d = Some s \<and> s \<noteq> [] \<and> sc s = Some t \<longrightarrow>
               fst (get_config dl self d) = Inr (defaults self ++ t))
          \<and> (sc ''*'' = Some g \<and> (d = None \<or> d = Some s \<and> sc s = None) \<longrightarrow>
               fst (get_config dl self d) = Inr (defaults self ++ g))
          \<and> (sc ''*'' = None \<and> (d = None \<or> d = Some s \<and> sc s = None) \<longrightarrow>
               fst (get_config dl self d) = Inr (defaults self)))"
proof -
  have r: "fst (get_config dl self d) =
             Inr (resolve_config self (section_of md (service_name self)) d)"
    using assms by (rule get_config_miss_ok)
  have empty_section: "resolve_config self Map.empty d = defaults self"
    by (simp add: resolve_config_def dict_get_def dict_contains_def)
  have no_configs: "fst (get_config dl self d) = Inr (defaults self)"
    if "md ''service_configs'' = None"
    using that by (simp add: r section_of_absent(1) empty_section)
  have no_section: "fst (get_config dl self d) = Inr (defaults self)"
    if "md ''service_configs'' = Some full" and "full (service_name self) = None"
    using that by (simp add: r section_of_absent(2) empty_section)
  have no_global: "resolve_config self sc d = defaults self ++ t"
    if "sc ''*'' = None" and "d = Some s" and "s \<noteq> []" and "sc s = Some t"
    using that
    by (simp add: resolve_config_def dict_get_def dict_contains_def GLOBAL_KEY_def)
  have no_entity: "resolve_config self sc d = defaults self ++ g"
    if "sc ''*'' = Some g" and "d = None \<or> d = Some s \<and> sc s = None"
    using that
    by (auto simp: resolve_config_def dict_get_def dict_contains_def GLOBAL_KEY_def)
  have neither: "resolve_config self sc d = defaults self"
    if "sc ''*'' = None" and "d = None \<or> d = Some s \<and> sc s = None"
    using that
    by (auto simp: resolve_config_def dict_get_def dict_contains_def GLOBAL_KEY_def)
  have in_section: "fst (get_config dl self d) = Inr (resolve_config self sc d)"
    if "md ''service_configs'' = Some full" and "full (service_name self) = Some sc"
    using that by (simp add: r section_of_present)
  show ?thesis
    using no_configs no_section in_section no_global no_entity neither
    by (intro conjI impI; (elim conjE)?; simp)
qed

theorem missing_tiers_are_empty_witness:
  "config_cache (init ''svc'' (Some scenario_defaults)) (Some ''ds1'') = None
   \<and> config_cache (init ''svc'' (Some scenario_defaults)) (Some ''ds2'') = None
   \<and> binaries_metadata (const_platform (metadata_with ''other'' scenario_section))
       (Some ''ds1'') = Inr (metadata_with ''other'' scenario_section)
   \<and> metadata_with ''other'' scenario_section ''service_configs''
       = Some [''other'' \<mapsto> scenario_section]
   \<and> [''other'' \<mapsto> scenario_section]
        (service_name (init ''svc'' (Some scenario_defaults))) = None
   \<and> fst (get_config (const_platform (metadata_with ''other'' scenario_section))
            (init ''svc'' (Some scenario_defaults)) (Some ''ds1''))
       = Inr [''quality'' \<mapsto> IntV 5]
   \<and> binaries_metadata (const_platform (metadata_with ''svc'' entity_only_section))
       (Some ''ds1'') = Inr (metadata_with ''svc'' entity_only_section)
   \<and> entity_only_section ''*'' = None
   \<and> entity_only_section ''ds1'' = Some [''format'' \<mapsto> StrV ''webm'']
   \<and> fst (get_config (const_platform (metadata_with ''svc'' entity_only_section))
            (init ''svc'' (Some scenario_defaults)) (Some ''ds1''))
       = Inr [''quality'' \<mapsto> IntV 5, ''format'' \<mapsto> StrV ''webm'']
   \<and> binaries_metadata (const_platform (metadata_with ''svc'' scenario_section))
       (Some ''ds2'') = Inr (metadata_with ''svc'' scenario_section)
   \<and> scenario_section ''*'' = Some [''quality'' \<mapsto> IntV 10, ''format'' \<mapsto> StrV ''mp4'']
   \<and> scenario_section ''ds2'' = None
   \<and> fst (get_config (const_platform (metadata_with ''svc'' scenario_section))
            (init ''svc'' (Some scenario_defaults)) (Some ''ds2''))
       = Inr [''quality'' \<mapsto> IntV 10, ''format'' \<mapsto> StrV ''mp4'']"
proof -
  let ?m = "init ''svc'' (Some scenario_defaults) :: val manager"
  have miss: "config_cache ?m (Some ''ds1'') = None" "config_cache ?m (Some ''ds2'') = None"
    and n: "service_name ?m = ''svc''" and d: "defaults ?m = scenario_defaults"
    by (simp_all add: init_def)
  have f1: "binaries_metadata (const_platform (metadata_with ''other'' scenario_section))
       (Some ''ds1'') = Inr (metadata_with ''other'' scenario_section)"
    and f2: "binaries_metadata (const_platform (metadata_with ''svc'' entity_only_section))
       (Some ''ds1'') = Inr (metadata_with ''svc'' entity_only_section)"
    and f3: "binaries_metadata (const_platform (metadata_with ''svc'' scenario_section))
       (Some ''ds2'') = Inr (metadata_with ''svc'' scenario_section)"
    by simp_all
  have e: "entity_only_section ''*'' = None"
      "entity_only_section ''ds1'' = Some [''format'' \<mapsto> StrV ''webm'']"
    by (simp_all add: entity_only_section_def)
  have g: "scenario_section ''*'' = Some [''quality'' \<mapsto> IntV 10, ''format'' \<mapsto> StrV ''mp4'']"
      "scenario_section ''ds2'' = None"
    by (simp_all add: scenario_section_def)
  have m1: "scenario_defaults ++ [''format'' \<mapsto> StrV ''webm'']
              = [''quality'' \<mapsto> IntV 5, ''format'' \<mapsto> StrV ''webm'']"
    and m2: "scenario_defaults ++ [''quality'' \<mapsto> IntV 10, ''format'' \<mapsto> StrV ''mp4'']
              = [''quality'' \<mapsto> IntV 10, ''format'' \<mapsto> StrV ''mp4'']"
    and m0: "scenario_defaults = [''quality'' \<mapsto> IntV 5]"
    by (auto simp: scenario_defaults_def map_add_def fun_eq_iff)
  have r1: "fst (get_config (const_platform (metadata_with ''other'' scenario_section))
            ?m (Some ''ds1'')) = Inr scenario_defaults"
    using missing_tiers_are_empty [OF miss(1) f1,
        where full = "[''other'' \<mapsto> scenario_section]"]
    by (simp add: n d metadata_with_def)
  have r2: "fst (get_config (const_platform (metadata_with ''svc'' entity_only_section))
            ?m (Some ''ds1'')) = Inr (scenario_defaults ++ [''format'' \<mapsto> StrV ''webm''])"
    using missing_tiers_are_empty [OF miss(1) f2,
        where full = "[''svc'' \<mapsto> entity_only_section]" and sc = entity_only_section
        and s = "''ds1''" and t = "[''format'' \<mapsto> StrV ''webm'']"] e
    by (simp add: n d metadata_with_def)
  have r3: "fst (get_config (const_platform (metadata_with ''svc'' scenario_section))
            ?m (Some ''ds2''))
          = Inr (scenario_defaults ++ [''quality'' \<mapsto> IntV 10, ''format'' \<mapsto> StrV ''mp4''])"
    using missing_tiers_are_empty [OF miss(2) f3,
        where full = "[''svc'' \<mapsto> scenario_section]" and sc = scenario_section
        and s = "''ds2''" and g = "[''quality'' \<mapsto> IntV 10, ''format'' \<mapsto> StrV ''mp4'']"] g
    by (simp add: n d metadata_with_def)
  show ?thesis
    using miss f1 f2 f3 e g r1 r2 [unfolded m1] r3 [unfolded m2]
    by (simp add: metadata_with_def init_def m0)
qed

section \<open>The cache\<close>

text \<open>
  Claim C4. For every entity id with a cache entry, \<open>get_config\<close> returns the cached
  value and leaves the manager as it was, its record of store calls included: no
  fetch, and no merge, since the value returned is the cached one whatever the
  platform, the defaults and the section are. Hence when one \<open>get_config\<close> call has
  returned a result, the next call for the same id, with no \<open>clear_cache\<close> or
  \<open>reload_config\<close> between them, returns the same result and changes nothing, even on
  a platform whose data has changed.
\<close>

theorem cache_hit_no_fetch:
  "(config_cache self d = Some c \<longrightarrow> get_config dl self d = (Inr c, self))
   \<and> (get_config dl self d = (Inr r, self') \<longrightarrow>
        get_config dl' self' d = (Inr r, self')
        \<and> store_calls (snd (get_config dl' self' d)) = store_calls self')"
proof (intro conjI impI)
  assume "config_cache self d = Some c"
  then show "get_config dl self d = (Inr c, self)"
    by (simp add: get_config_def load_hit)
next
  assume first: "get_config dl self d = (Inr r, self')"
  have "config_cache self' d = Some r"
  proof (cases "config_cache self d")
    case None
    with first show ?thesis
      by (auto simp: get_config_def load_dataset_config_def Let_def split: sum.splits)
  next
    case (Some c)
    with first show ?thesis
      by (simp add: get_config_def load_hit)
  qed
  then show second: "get_config dl' self' d = (Inr r, self')"
    by (simp add: get_config_def load_hit)
  show "store_calls (snd (get_config dl' self' d)) = store_calls self'"
    by (simp add: second)
qed

theorem cache_hit_no_fetch_witness:
  "config_cache cached_manager (Some ''ds1'') = Some [''quality'' \<mapsto> IntV 1]
   \<and> get_config (const_platform (metadata_with ''webm-converter'' scenario_section))
        cached_manager (Some ''ds1'')
       = (Inr [''quality'' \<mapsto> IntV 1], cached_manager)
   \<and> get_config empty_platform cached_manager (Some ''ds1'')
       = (Inr [''quality'' \<mapsto> IntV 1], cached_manager)
   \<and> store_calls (snd (get_config empty_platform cached_manager (Some ''ds1'')))
       = store_calls cached_manager"
proof -
  have hit: "config_cache cached_manager (Some ''ds1'') = Some [''quality'' \<mapsto> IntV 1]"
    by (simp add: cached_manager_def)
  have first: "get_config (const_platform (metadata_with ''webm-converter'' scenario_section))
        cached_manager (Some ''ds1'') = (Inr [''quality'' \<mapsto> IntV 1], cached_manager)"
    using hit
      cache_hit_no_fetch [where self = cached_manager and d = "Some ''ds1''"
        and c = "[''quality'' \<mapsto> IntV 1]"
        and dl = "const_platform (metadata_with ''webm-converter'' scenario_section)"]
    by simp
  show ?thesis
    using hit first
      cache_hit_no_fetch [where self = cached_manager and d = "Some ''ds1''"
        and dl = "const_platform (metadata_with ''webm-converter'' scenario_section)"
        and r = "[''quality'' \<mapsto> IntV 1]" and self' = cached_manager
        and dl' = empty_platform]
    by simp
qed

text \<open>
  Claim C5. For every entity id with no cached entry, when the store fetch raises (at
  any of its three calls), \<open>get_config\<close> raises that same error, has called the store
  once and not again, and leaves the cache as it was: no entry is created for the id.
\<close>

theorem failed_fetch_propagates:
  assumes "config_cache self d = None"
    and "binaries_metadata dl d = Inl e"
  shows "fst (get_config dl self d) = Inl e
       \<and> config_cache (snd (get_config dl self d)) = config_cache self
       \<and> config_cache (snd (get_config dl self d)) d = None
       \<and> store_calls (snd (get_config dl self d)) = store_calls self @ [d]
       \<and> snd (get_config dl self d) = self\<lparr>store_calls := store_calls self @ [d]\<rparr>"
  using assms by (simp add: get_config_def load_miss_error)

theorem failed_fetch_propagates_witness:
  "config_cache cached_manager (Some ''ds3'') = None
   \<and> binaries_metadata (empty_platform :: val platform) (Some ''ds3'') = Inl NotFoundError
   \<and> fst (get_config empty_platform cached_manager (Some ''ds3'')) = Inl NotFoundError
   \<and> config_cache (snd (get_config empty_platform cached_manager (Some ''ds3'')))
       = config_cache cached_manager
   \<and> store_calls (snd (get_config empty_platform cached_manager (Some ''ds3'')))
       = [Some ''ds1'', Some ''ds2'', Some ''ds3'']"
proof -
  have miss: "config_cache cached_manager (Some ''ds3'') = None"
    by (simp add: cached_manager_def)
  have calls: "store_calls cached_manager = [Some ''ds1'', Some ''ds2'']"
    by (simp add: cached_manager_def)
  show ?thesis
    using failed_fetch_propagates [OF miss binaries_metadata_empty] miss calls
    by simp
qed

section \<open>Invalidation\<close>

text \<open>
  For every non-empty entity id \<open>clear_cache(entity_id)\<close> removes that one cache entry
  and no other: the entry of the id is gone, a manager with no entry for the id is
  returned as it was, every other id's entry is as before, and the other fields are
  untouched. \<open>clear_cache\<close> with no argument leaves an empty cache. The operation has
  no raising path.
\<close>

lemma clear_cache_nonempty_id:
  "(s \<noteq> [] \<longrightarrow>
      config_cache (clear_cache self (Some s)) = (config_cache self)(Some s := None)
      \<and> (config_cache self (Some s) = None \<longrightarrow> clear_cache self (Some s) = self)
      \<and> (\<forall>d. d \<noteq> Some s \<longrightarrow>
            config_cache (clear_cache self (Some s)) d = config_cache self d)
      \<and> service_name (clear_cache self (Some s)) = service_name self
      \<and> defaults (clear_cache self (Some s)) = defaults self
      \<and> store_calls (clear_cache self (Some s)) = store_calls self)
   \<and> config_cache (clear_cache self None) = Map.empty"
proof -
  have full: "config_cache (clear_cache self None) = Map.empty"
    by (simp add: clear_cache_def)
  have one: "config_cache (clear_cache self (Some s)) = (config_cache self)(Some s := None)"
    if "s \<noteq> []"
    using that by (auto simp: clear_cache_def dict_contains_def fun_eq_iff)
  have absent: "clear_cache self (Some s) = self"
    if "s \<noteq> []" and "config_cache self (Some s) = None"
    using that by (simp add: clear_cache_def dict_contains_def)
  show ?thesis
    using full one absent clear_cache_other [of s _ self]
    by (simp add: clear_cache_fields)
qed

text \<open>
  Claim C7. For every cache state and every given entity id, \<open>clear_cache(entity_id)\<close>
  removes at most that one cache entry, doing nothing when the id has no entry, and
  leaves every other id's entry unchanged. The docstring of \<open>clear_cache\<close> says so
  too: an id that is provided clears the cache of that dataset only, and \<open>None\<close>
  clears all. The code tests the truth value of the id instead, so the empty string, an
  id that is provided and that \<open>_load_dataset_config\<close> uses as a cache key like any
  other, takes the branch of \<open>None\<close>. The cache of \<open>cached_manager\<close> has entries for
  \<open>ds1\<close> and \<open>ds2\<close> and none for \<open>""\<close>; \<open>clear_cache("")\<close> removes both.
\<close>

theorem clear_cache_empty_id_clears_all:
  "config_cache cached_manager (Some []) = None
   \<and> config_cache cached_manager (Some ''ds1'') = Some [''quality'' \<mapsto> IntV 1]
   \<and> config_cache cached_manager (Some ''ds2'') = Some [''quality'' \<mapsto> IntV 2]
   \<and> config_cache (clear_cache cached_manager (Some [])) (Some ''ds1'') = None
   \<and> config_cache (clear_cache cached_manager (Some [])) (Some ''ds2'') = None
   \<and> clear_cache cached_manager (Some []) \<noteq> cached_manager"
proof -
  have "config_cache (clear_cache cached_manager (Some [])) (Some ''ds1'') = None"
    by (simp add: clear_cache_def)
  moreover have "config_cache cached_manager (Some ''ds1'') = Some [''quality'' \<mapsto> IntV 1]"
    by (simp add: cached_manager_def)
  ultimately have "clear_cache cached_manager (Some []) \<noteq> cached_manager"
    by auto
  then show ?thesis
    by (simp add: clear_cache_def) (simp add: cached_manager_def)
qed

text \<open>
  \<open>reload_config(entity_id)\<close> is \<open>clear_cache(entity_id)\<close> followed by
  \<open>get_config(entity_id)\<close>, for every entity id: it calls the store once whatever the
  cache held for the id; when the fetch succeeds it returns the merge of the fetched
  section and caches it for the id, and when the fetch raises it raises the same
  error. For every non-empty entity id it leaves the cache entries of all other ids
  untouched.
\<close>

lemma reload_config_is_clear_then_get:
  "reload_config dl self s = get_config dl (clear_cache self (Some s)) (Some s)
   \<and> store_calls (snd (reload_config dl self s)) = store_calls self @ [Some s]
   \<and> (binaries_metadata dl (Some s) = Inr md \<longrightarrow>
        fst (reload_config dl self s) =
          Inr (resolve_config self (section_of md (service_name self)) (Some s))
        \<and> config_cache (snd (reload_config dl self s)) (Some s) =
          Some (resolve_config self (section_of md (service_name self)) (Some s)))
   \<and> (binaries_metadata dl (Some s) = Inl e \<longrightarrow>
        fst (reload_config dl self s) = Inl e
        \<and> config_cache (snd (reload_config dl self s)) (Some s) = None)
   \<and> (s \<noteq> [] \<longrightarrow>
        (\<forall>d. d \<noteq> Some s \<longrightarrow>
           config_cache (snd (reload_config dl self s)) d = config_cache self d))"
proof -
  let ?m = "clear_cache self (Some s)"
  have miss: "config_cache ?m (Some s) = None"
    by (rule clear_cache_entry)
  have eq: "reload_config dl self s = get_config dl ?m (Some s)"
    by (simp add: reload_config_def get_config_def)
  have res: "resolve_config ?m sc d = resolve_config self sc d" for sc d
    by (rule resolve_config_defaults_only) (rule clear_cache_fields)
  have calls: "store_calls (snd (reload_config dl self s)) = store_calls self @ [Some s]"
    using miss
    by (cases "binaries_metadata dl (Some s)")
       (simp_all add: reload_config_def load_miss_error load_miss_ok clear_cache_fields)
  have ok: "fst (reload_config dl self s) =
          Inr (resolve_config self (section_of md (service_name self)) (Some s))
        \<and> config_cache (snd (reload_config dl self s)) (Some s) =
          Some (resolve_config self (section_of md (service_name self)) (Some s))"
    if "binaries_metadata dl (Some s) = Inr md"
    using miss that
    by (simp add: reload_config_def load_miss_ok clear_cache_fields res)
  have err: "fst (reload_config dl self s) = Inl e
        \<and> config_cache (snd (reload_config dl self s)) (Some s) = None"
    if "binaries_metadata dl (Some s) = Inl e"
    using miss that
    by (simp add: reload_config_def load_miss_error)
  have frame: "config_cache (snd (reload_config dl self s)) d = config_cache self d"
    if "s \<noteq> []" and "d \<noteq> Some s" for d
    using that by (simp add: reload_config_def load_cache_other clear_cache_other)
  show ?thesis
    using eq calls ok err frame by blast
qed

text \<open>
  Claim C8. For every cache state and entity id, \<open>reload_config(entity_id)\<close> is
  equivalent to \<open>clear_cache(entity_id)\<close> followed by \<open>get_config(entity_id)\<close>, returns
  a result computed from a fresh fetch and merge, and leaves the cache entries of all
  other ids untouched. The code breaks the last part at the empty string, through the
  truth-value test of \<open>clear_cache\<close>: \<open>reload_config("")\<close> on \<open>cached_manager\<close> first
  empties the cache, removing the entries of \<open>ds1\<close> and \<open>ds2\<close>, and then raises the
  platform's error for the id it does not resolve.
\<close>

theorem reload_config_empty_id_clears_all:
  "config_cache cached_manager (Some ''ds1'') = Some [''quality'' \<mapsto> IntV 1]
   \<and> config_cache cached_manager (Some ''ds2'') = Some [''quality'' \<mapsto> IntV 2]
   \<and> fst (reload_config (const_platform (metadata_with ''webm-converter'' scenario_section))
            cached_manager [])
       = Inl NotFoundError
   \<and> config_cache
        (snd (reload_config (const_platform (metadata_with ''webm-converter'' scenario_section))
                cached_manager [])) (Some ''ds1'')
       = None
   \<and> config_cache
        (snd (reload_config (const_platform (metadata_with ''webm-converter'' scenario_section))
                cached_manager [])) (Some ''ds2'')
       = None"
proof -
  have cleared: "config_cache (clear_cache cached_manager (Some [])) = Map.empty"
    by (simp add: clear_cache_def)
  have "config_cache (snd (reload_config dl cached_manager [])) (Some ''ds1'') = None"
       "config_cache (snd (reload_config dl cached_manager [])) (Some ''ds2'') = None"
    for dl :: "val platform"
    by (simp_all add: reload_config_def load_cache_other cleared)
  moreover have "fst (reload_config (const_platform md) cached_manager []) = Inl NotFoundError"
    for md :: "val metadata"
    by (simp add: reload_config_def load_miss_error cleared)
  ultimately show ?thesis
    by (simp add: cached_manager_def)
qed

section \<open>Entity ids that are not dataset ids\<close>

text \<open>
  Claim C9. An empty-string entity id is treated as absent, not as a key. Resolution
  with \<open>dataset_id = ""\<close> returns the defaults overlaid with the global tier only,
  whatever the section holds under the key \<open>""\<close>, which is the resolution with no
  entity id; and \<open>clear_cache("")\<close> leaves an empty cache, as \<open>clear_cache()\<close> does,
  rather than removing only the entry keyed by \<open>""\<close>.
\<close>

theorem empty_id_is_absent:
  "resolve_config self sc (Some []) = defaults self ++ dict_get sc GLOBAL_KEY Map.empty
   \<and> resolve_config self sc (Some []) = resolve_config self sc None
   \<and> config_cache (clear_cache self (Some [])) = Map.empty
   \<and> clear_cache self (Some []) = clear_cache self None"
  by (simp add: resolve_config_def clear_cache_def Let_def)

text \<open>
  Claim C10. No operation checks the entity id against the reserved key: for
  \<open>dataset_id = "*"\<close>, on a cache miss with a successful fetch, \<open>get_config\<close> returns a
  result, not an error. When the section has the entry \<open>g\<close> under \<open>*\<close>, that entry
  is overlaid twice, as the global tier and as the entity tier, and the result is the
  defaults overlaid with \<open>g\<close>, which is what the resolution with no entity id gives;
  when the section has no \<open>*\<close> entry both are the defaults.
\<close>

theorem global_key_as_entity_id:
  assumes "config_cache self (Some ''*'') = None"
    and "binaries_metadata dl (Some ''*'') = Inr md"
    and "md ''service_configs'' = Some full"
    and "full (service_name self) = Some sc"
  shows "(sc ''*'' = Some g \<longrightarrow>
            fst (get_config dl self (Some ''*'')) = Inr (defaults self ++ g ++ g)
          \<and> fst (get_config dl self (Some ''*'')) = Inr (defaults self ++ g)
          \<and> resolve_config self sc None = defaults self ++ g)
       \<and> (sc ''*'' = None \<longrightarrow>
            fst (get_config dl self (Some ''*'')) = Inr (defaults self)
          \<and> resolve_config self sc None = defaults self)
       \<and> fst (get_config dl self (Some ''*'')) = Inr (resolve_config self sc None)"
proof -
  have r: "fst (get_config dl self (Some ''*'')) = Inr (resolve_config self sc (Some ''*''))"
    using get_config_miss_ok [OF assms(1,2)] assms(3,4)
    by (simp add: section_of_present)
  have idem: "m ++ g ++ g = m ++ g" for m g :: "'a settings"
    by (rule ext) (simp add: map_add_def split: option.split)
  have present: "resolve_config self sc (Some ''*'') = defaults self ++ g ++ g"
      "resolve_config self sc None = defaults self ++ g"
    if "sc ''*'' = Some g" for g
    using that
    by (simp_all add: resolve_config_def dict_get_def dict_contains_def GLOBAL_KEY_def)
  have absent: "resolve_config self sc (Some ''*'') = defaults self"
      "resolve_config self sc None = defaults self"
    if "sc ''*'' = None"
    using that
    by (simp_all add: resolve_config_def dict_get_def dict_contains_def GLOBAL_KEY_def)
  have same: "resolve_config self sc (Some ''*'') = resolve_config self sc None"
  proof (cases "sc ''*''")
    case None
    then show ?thesis by (simp add: absent)
  next
    case (Some h)
    then show ?thesis by (simp add: present [of h] idem)
  qed
  show ?thesis
    using present [of g] absent same by (simp add: r idem)
qed

theorem global_key_as_entity_id_witness:
  "config_cache (init ''svc'' (Some scenario_defaults)) (Some ''*'') = None
   \<and> binaries_metadata (const_platform (metadata_with ''svc'' scenario_section))
       (Some ''*'') = Inr (metadata_with ''svc'' scenario_section)
   \<and> metadata_with ''svc'' scenario_section ''service_configs''
       = Some [''svc'' \<mapsto> scenario_section]
   \<and> [''svc'' \<mapsto> scenario_section]
        (service_name (init ''svc'' (Some scenario_defaults))) = Some scenario_section
   \<and> scenario_section ''*'' = Some [''quality'' \<mapsto> IntV 10, ''format'' \<mapsto> StrV ''mp4'']
   \<and> fst (get_config (const_platform (metadata_with ''svc'' scenario_section))
            (init ''svc'' (Some scenario_defaults)) (Some ''*''))
       = Inr [''quality'' \<mapsto> IntV 10, ''format'' \<mapsto> StrV ''mp4'']
   \<and> resolve_config (init ''svc'' (Some scenario_defaults)) scenario_section None
       = [''quality'' \<mapsto> IntV 10, ''format'' \<mapsto> StrV ''mp4'']"
proof -
  let ?m = "init ''svc'' (Some scenario_defaults) :: val manager"
  have miss: "config_cache ?m (Some ''*'') = None"
    and n: "service_name ?m = ''svc''" and d: "defaults ?m = scenario_defaults"
    by (simp_all add: init_def)
  have f: "binaries_metadata (const_platform (metadata_with ''svc'' scenario_section))
       (Some ''*'') = Inr (metadata_with ''svc'' scenario_section)"
    by simp
  have c: "metadata_with ''svc'' scenario_section ''service_configs''
       = Some [''svc'' \<mapsto> scenario_section]"
    by (simp add: metadata_with_def)
  have sn: "[''svc'' \<mapsto> scenario_section] (service_name ?m) = Some scenario_section"
    by (simp add: n)
  have g: "scenario_section ''*'' = Some [''quality'' \<mapsto> IntV 10, ''format'' \<mapsto> StrV ''mp4'']"
    by (simp add: scenario_section_def)
  have m: "scenario_defaults ++ [''quality'' \<mapsto> IntV 10, ''format'' \<mapsto> StrV ''mp4'']
              = [''quality'' \<mapsto> IntV 10, ''format'' \<mapsto> StrV ''mp4'']"
    by (auto simp: scenario_defaults_def map_add_def fun_eq_iff)
  have "fst (get_config (const_platform (metadata_with ''svc'' scenario_section))
            ?m (Some ''*''))
          = Inr (scenario_defaults ++ [''quality'' \<mapsto> IntV 10, ''format'' \<mapsto> StrV ''mp4''])
        \<and> resolve_config ?m scenario_section None
          = scenario_defaults ++ [''quality'' \<mapsto> IntV 10, ''format'' \<mapsto> StrV ''mp4'']"
    using global_key_as_entity_id [OF miss f c sn,
        where g = "[''quality'' \<mapsto> IntV 10, ''format'' \<mapsto> StrV ''mp4'']"] g
    by (simp add: d)
  then show ?thesis
    using miss f c sn g by (simp only: m simp_thms)
qed

end
